theory Spec2Isabelle
  imports Main
begin

section \<open>JavaScript values\<close>

text \<open>
  The probes of \<^verbatim>\<open>src/services/gemini.ts\<close> handle values of type \<^verbatim>\<open>any\<close>: the
  responses of the client library and whatever a call throws. They are modelled by one
  datatype of JavaScript values. A string is the list of its UTF-16 code units,
  restricted to the code units below 256 (Latin-1), which covers every literal of the
  source; a number is a safe integer (below \<open>2 ^ 53\<close> in magnitude), which
  \<^verbatim>\<open>ToString\<close> prints in plain decimal digits. \<open>JObj\<close> is a plain object and
  \<open>JErr\<close> an instance of \<^verbatim>\<open>Error\<close> or of a subclass; both are association lists
  from property names to values (the first binding of a name counts, inherited data
  properties such as the \<^verbatim>\<open>name\<close> of an error included). An array has its elements
  and no further property of its own.

  The only function among the values is \<open>JArrayValues\<close>, the built-in
  \<^verbatim>\<open>Array.prototype.values\<close>, which every array inherits under the name
  \<^verbatim>\<open>values\<close>, a name the embedding probe reads. Other functions, symbols, accessor
  properties and proxies are outside the model. Of the property names the probes read
  (\<^verbatim>\<open>message\<close>, \<^verbatim>\<open>text\<close>, \<^verbatim>\<open>totalTokens\<close>, \<^verbatim>\<open>embedding\<close>, \<^verbatim>\<open>values\<close>,
  \<^verbatim>\<open>length\<close>) the built-in prototypes supply nothing else. The texts of the
  engine's own errors and of a built-in function are as V8 prints them.
\<close>

datatype jsval =
    JUndefined
  | JNull
  | JBool bool
  | JNum int
  | JStr string
  | JArr "jsval list"
  | JObj "(string \<times> jsval) list"
  | JErr "(string \<times> jsval) list"
  | JArrayValues

abbreviation a_acute :: char where "a_acute \<equiv> CHR 0xE1"
abbreviation i_acute :: char where "i_acute \<equiv> CHR 0xED"
abbreviation o_acute :: char where "o_acute \<equiv> CHR 0xF3"
abbreviation u_acute :: char where "u_acute \<equiv> CHR 0xFA"
abbreviation inverted_question :: char where "inverted_question \<equiv> CHR 0xBF"
abbreviation apostrophe :: char where "apostrophe \<equiv> CHR 0x27"

text \<open>\<^verbatim>\<open>new Error(msg)\<close> and the \<^verbatim>\<open>TypeError\<close> the engine raises.\<close>

definition new_Error :: "string \<Rightarrow> jsval" where
  "new_Error msg = JErr [(''name'', JStr ''Error''), (''message'', JStr msg)]"

definition new_TypeError :: "string \<Rightarrow> jsval" where
  "new_TypeError msg = JErr [(''name'', JStr ''TypeError''), (''message'', JStr msg)]"

text \<open>Truthiness (\<^verbatim>\<open>ToBoolean\<close>), as \<^verbatim>\<open>if\<close>, \<^verbatim>\<open>!\<close>, \<^verbatim>\<open>&&\<close> and \<^verbatim>\<open>||\<close> use it.\<close>

fun truthy :: "jsval \<Rightarrow> bool" where
  "truthy JUndefined = False"
| "truthy JNull = False"
| "truthy (JBool b) = b"
| "truthy (JNum n) = (n \<noteq> 0)"
| "truthy (JStr s) = (s \<noteq> [])"
| "truthy (JArr xs) = True"
| "truthy (JObj ps) = True"
| "truthy (JErr ps) = True"
| "truthy JArrayValues = True"

text \<open>
  Property access \<^verbatim>\<open>v.p\<close>. On \<^verbatim>\<open>undefined\<close> and \<^verbatim>\<open>null\<close> it throws a
  \<^verbatim>\<open>TypeError\<close> (\<open>Inl\<close>); on every other value it yields the property or
  \<^verbatim>\<open>undefined\<close>. Strings and arrays have their \<^verbatim>\<open>length\<close>; an array inherits
  the method \<^verbatim>\<open>values\<close>, a function of \<^verbatim>\<open>length\<close> 0 and \<^verbatim>\<open>name\<close>
  \<^verbatim>\<open>values\<close>.
\<close>

fun get_prop :: "jsval \<Rightarrow> string \<Rightarrow> jsval + jsval" where
  "get_prop JUndefined p =
     Inl (new_TypeError (''Cannot read properties of undefined (reading '' @ [apostrophe] @ p @ [apostrophe] @ '')''))"
| "get_prop JNull p =
     Inl (new_TypeError (''Cannot read properties of null (reading '' @ [apostrophe] @ p @ [apostrophe] @ '')''))"
| "get_prop (JBool b) p = Inr JUndefined"
| "get_prop (JNum n) p = Inr JUndefined"
| "get_prop (JStr s) p = Inr (if p = ''length'' then JNum (int (length s)) else JUndefined)"
| "get_prop (JArr xs) p =
     Inr (if p = ''length'' then JNum (int (length xs))
          else if p = ''values'' then JArrayValues else JUndefined)"
| "get_prop (JObj ps) p = Inr (case map_of ps p of None \<Rightarrow> JUndefined | Some v \<Rightarrow> v)"
| "get_prop (JErr ps) p = Inr (case map_of ps p of None \<Rightarrow> JUndefined | Some v \<Rightarrow> v)"
| "get_prop JArrayValues p =
     Inr (if p = ''length'' then JNum 0
          else if p = ''name'' then JStr ''values'' else JUndefined)"

text \<open>A chain of property accesses \<^verbatim>\<open>v.p1.p2\<close>.\<close>

fun get_path :: "jsval \<Rightarrow> string list \<Rightarrow> jsval + jsval" where
  "get_path v [] = Inr v"
| "get_path v (p # ps) = (case get_prop v p of Inl e \<Rightarrow> Inl e | Inr u \<Rightarrow> get_path u ps)"

text \<open>
  \<^verbatim>\<open>a && b\<close> and \<^verbatim>\<open>a || b\<close>: the right operand is evaluated, and may throw, only
  when the left one does not decide.
\<close>

definition js_and :: "jsval + jsval \<Rightarrow> jsval + jsval \<Rightarrow> jsval + jsval" where
  "js_and a b = (case a of Inl e \<Rightarrow> Inl e | Inr x \<Rightarrow> if truthy x then b else Inr x)"

definition js_or :: "jsval + jsval \<Rightarrow> jsval + jsval \<Rightarrow> jsval + jsval" where
  "js_or a b = (case a of Inl e \<Rightarrow> Inl e | Inr x \<Rightarrow> if truthy x then Inr x else b)"

text \<open>
  \<^verbatim>\<open>ToString\<close>, as template literals apply it, which may throw. On the values of
  the model \<^verbatim>\<open>+=\<close> on a string converts its right operand to the same string, or
  throws the same error: the inherited \<^verbatim>\<open>valueOf\<close> returns the object itself, and an
  own \<^verbatim>\<open>valueOf\<close> is either no function or \<open>JArrayValues\<close>, which returns an
  iterator object; so the conversion is always left to \<^verbatim>\<open>toString\<close>.

  \<^item> A number prints its decimal digits.
  \<^item> An array joins its elements with commas, \<^verbatim>\<open>null\<close> and \<^verbatim>\<open>undefined\<close> as the
    empty string; the first element that throws ends the conversion.
  \<^item> A plain object without a \<^verbatim>\<open>toString\<close> property of its own prints
    \<^verbatim>\<open>[object Object]\<close>.
  \<^item> An error without one prints as \<^verbatim>\<open>Error.prototype.toString\<close> does: its name
    (\<^verbatim>\<open>Error\<close> when undefined) and its message (empty when undefined), each
    converted in turn, joined by a colon when neither is empty.
  \<^item> An object or error with a \<^verbatim>\<open>toString\<close> property of its own yields no primitive
    (the property is no function, or it is \<open>JArrayValues\<close>), and the conversion throws a
    \<^verbatim>\<open>TypeError\<close>.
  \<^item> The built-in function prints its source text.
\<close>

function string_of_nat :: "nat \<Rightarrow> string" where
  "string_of_nat n =
     (if n < 10 then [''0123456789'' ! n]
      else string_of_nat (n div 10) @ [''0123456789'' ! (n mod 10)])"
  by pat_completeness auto
termination
  by (relation "measure id") auto

declare string_of_nat.simps [simp del]

definition number_to_string :: "int \<Rightarrow> string" where
  "number_to_string n =
     (if n < 0 then ''-'' @ string_of_nat (nat (- n)) else string_of_nat (nat n))"

fun join_with :: "string \<Rightarrow> string list \<Rightarrow> string" where
  "join_with sep [] = []"
| "join_with sep [x] = x"
| "join_with sep (x # y # ys) = x @ sep @ join_with sep (y # ys)"

text \<open>The results of conversions made in order: all the strings, or the first throw.\<close>

fun all_or_first_throw :: "(jsval + string) list \<Rightarrow> jsval + string list" where
  "all_or_first_throw [] = Inr []"
| "all_or_first_throw (Inl e # rs) = Inl e"
| "all_or_first_throw (Inr s # rs) =
     (case all_or_first_throw rs of Inl e \<Rightarrow> Inl e | Inr ss \<Rightarrow> Inr (s # ss))"

fun to_string :: "jsval \<Rightarrow> jsval + string" where
  "to_string JUndefined = Inr ''undefined''"
| "to_string JNull = Inr ''null''"
| "to_string (JBool b) = Inr (if b then ''true'' else ''false'')"
| "to_string (JNum n) = Inr (number_to_string n)"
| "to_string (JStr s) = Inr s"
| "to_string JArrayValues = Inr ''function values() { [native code] }''"
| "to_string (JArr xs) =
     (case all_or_first_throw
             (map (\<lambda>x. if x = JUndefined \<or> x = JNull then Inr [] else to_string x) xs) of
        Inl e \<Rightarrow> Inl e
      | Inr ss \<Rightarrow> Inr (join_with '','' ss))"
| "to_string (JObj ps) =
     (if map_of ps ''toString'' = None then Inr ''[object Object]''
      else Inl (new_TypeError ''Cannot convert object to primitive value''))"
| "to_string (JErr ps) =
     (if map_of ps ''toString'' = None then
        (let strs = map (\<lambda>kv. (fst kv, if snd kv = JUndefined then None
                                       else Some (to_string (snd kv)))) ps in
         case (case map_of strs ''name'' of
                 None \<Rightarrow> Inr ''Error'' | Some None \<Rightarrow> Inr ''Error'' | Some (Some r) \<Rightarrow> r) of
           Inl e \<Rightarrow> Inl e
         | Inr name \<Rightarrow>
             (case (case map_of strs ''message'' of
                      None \<Rightarrow> Inr [] | Some None \<Rightarrow> Inr [] | Some (Some r) \<Rightarrow> r) of
                Inl e \<Rightarrow> Inl e
              | Inr msg \<Rightarrow>
                  Inr (if name = [] then msg else if msg = [] then name
                       else name @ '': '' @ msg)))
      else Inl (new_TypeError ''Cannot convert object to primitive value''))"

text \<open>
  \<^verbatim>\<open>String.prototype.toLowerCase\<close> on Latin-1 code units: \<^verbatim>\<open>A\<close> to \<^verbatim>\<open>Z\<close> and the
  accented capitals \<^verbatim>\<open>0xC0\<close> to \<^verbatim>\<open>0xDE\<close> (the multiplication sign \<^verbatim>\<open>0xD7\<close>
  apart) move up by 32. On a value that is not a string the method is missing and the
  call throws a \<^verbatim>\<open>TypeError\<close>; unless the value has the property
  \<^verbatim>\<open>toLowerCase\<close> of its own with the function \<open>JArrayValues\<close>, which returns an
  iterator object, on which the call of \<^verbatim>\<open>includes\<close> that follows in the source then
  throws.
\<close>

definition to_lower_char :: "char \<Rightarrow> char" where
  "to_lower_char c =
     (let n = (of_char c :: nat) in
      if (65 \<le> n \<and> n \<le> 90) \<or> (192 \<le> n \<and> n \<le> 222 \<and> n \<noteq> 215)
      then char_of (n + 32) else c)"

definition toLowerCase :: "jsval \<Rightarrow> jsval + string" where
  "toLowerCase v =
     (case v of
        JStr s \<Rightarrow> Inr (map to_lower_char s)
      | _ \<Rightarrow>
          Inl (new_TypeError
                 (if get_prop v ''toLowerCase'' = Inr JArrayValues
                  then ''text.toLowerCase(...).includes is not a function''
                  else ''text.toLowerCase is not a function'')))"

text \<open>\<^verbatim>\<open>String.prototype.includes\<close>: the argument occurs as a contiguous substring.\<close>

fun starts_with :: "string \<Rightarrow> string \<Rightarrow> bool" where
  "starts_with s [] = True"
| "starts_with [] (c # cs) = False"
| "starts_with (x # xs) (c # cs) = (x = c \<and> starts_with xs cs)"

fun includes_str :: "string \<Rightarrow> string \<Rightarrow> bool" where
  "includes_str [] t = (t = [])"
| "includes_str (x # xs) t = (starts_with (x # xs) t \<or> includes_str xs t)"

section \<open>The client library and the environment\<close>

text \<open>
  The stream an awaited \<^verbatim>\<open>generateContentStream\<close> yields: chunks in arrival order,
  ended by completion or by a thrown value. Streams are finite, and every awaited call
  settles. A resolved value that cannot be iterated behaves as \<open>StreamFail\<close> with the
  \<^verbatim>\<open>TypeError\<close> that \<^verbatim>\<open>for await\<close> raises.
\<close>

datatype response_stream =
    StreamEnd
  | StreamChunk jsval response_stream
  | StreamFail jsval

text \<open>
  \<^verbatim>\<open>ai.models\<close>: each method maps the request object to the outcome of awaiting the
  call, \<open>Inl\<close> for the value thrown or rejected with, \<open>Inr\<close> for the value resolved with.
\<close>

record client =
  generateContent :: "jsval \<Rightarrow> jsval + jsval"
  generateContentStream :: "jsval \<Rightarrow> jsval + response_stream"
  countTokens :: "jsval \<Rightarrow> jsval + jsval"
  embedContent :: "jsval \<Rightarrow> jsval + jsval"

text \<open>
  What a probe runs against: \<^verbatim>\<open>process.env.API_KEY\<close> (absent is \<open>None\<close>) and the
  constructor \<^verbatim>\<open>new GoogleGenAI(options)\<close>, which may throw.
\<close>

record world =
  API_KEY :: "string option"
  GoogleGenAI :: "jsval \<Rightarrow> jsval + client"

text \<open>What a probe does to the outside: the requests it sends and \<^verbatim>\<open>console.warn\<close>.\<close>

datatype event =
    Request string jsval
  | ConsoleWarn "jsval list"

record TestResult =
  success :: bool
  message :: jsval
  data :: "jsval option"

text \<open>
  A run of a probe: the events in order, and \<open>Inr\<close> the record the promise resolves
  with or \<open>Inl\<close> the value it rejects with.
\<close>

type_synonym run = "event list \<times> (jsval + TestResult)"

definition try_catch :: "run \<Rightarrow> (jsval \<Rightarrow> jsval + TestResult) \<Rightarrow> run" where
  "try_catch body handler =
     (case snd body of Inl error \<Rightarrow> (fst body, handler error) | Inr r \<Rightarrow> body)"

definition SAMPLE_IMAGE_BASE64 :: string where
  "SAMPLE_IMAGE_BASE64 =
     ''iVBORw0KGgoAAAANSUhEUgAAAAEAAAABCAYAAAAfFcSJAAAADUlEQVR42mP8z8BQDwAEhQGAhKmMIQAAAABJRU5ErkJggg==''"

definition missing_key_message :: string where
  "missing_key_message = ''API Key no encontrada en process.env.API_KEY''"

definition getAIClient :: "world \<Rightarrow> jsval + client" where
  "getAIClient w =
     (case API_KEY w of
        None \<Rightarrow> Inl (new_Error missing_key_message)
      | Some apiKey \<Rightarrow>
          if apiKey = [] then Inl (new_Error missing_key_message)
          else GoogleGenAI w (JObj [(''apiKey'', JStr apiKey)]))"

definition default_model :: string where
  "default_model = ''gemini-2.5-flash''"

definition model_or_default :: "string option \<Rightarrow> string" where
  "model_or_default arg = (case arg of None \<Rightarrow> default_model | Some m \<Rightarrow> m)"

section \<open>The probes\<close>

text \<open>
  Each probe is its \<^verbatim>\<open>try\<close> block, which yields a result or throws, and its
  \<^verbatim>\<open>catch\<close> handler, which is itself code that may throw. The model identifier is
  the optional argument; \<open>None\<close> is the omitted argument.
\<close>

subsection \<open>1. Auth and connection\<close>

definition connect_request :: "string \<Rightarrow> jsval" where
  "connect_request modelId = JObj [(''model'', JStr modelId), (''contents'', JStr ''ping'')]"

definition connect_try :: "world \<Rightarrow> string \<Rightarrow> run" where
  "connect_try w modelId =
     (case getAIClient w of
        Inl error \<Rightarrow> ([], Inl error)
      | Inr ai \<Rightarrow>
          (let request = connect_request modelId in
           ([Request ''generateContent'' request],
            case generateContent ai request of
              Inl error \<Rightarrow> Inl error
            | Inr response \<Rightarrow>
                (case js_and (Inr response) (get_prop response ''text'') of
                   Inl error \<Rightarrow> Inl error
                 | Inr c \<Rightarrow>
                     if truthy c then
                       (case get_prop response ''text'' of
                          Inl error \<Rightarrow> Inl error
                        | Inr text \<Rightarrow>
                            Inr \<lparr>success = True,
                                 message = JStr (''Conexi'' @ [o_acute] @ ''n exitosa con '' @ modelId @ ''.''),
                                 data = Some (JObj [(''reply'', text)])\<rparr>)
                     else Inl (new_Error (''Respuesta vac'' @ [i_acute] @ ''a del servidor.''))))))"

definition connect_catch :: "jsval \<Rightarrow> jsval + TestResult" where
  "connect_catch error =
     (case js_or (get_prop error ''message'') (Inr (JStr (''Error de conexi'' @ [o_acute] @ ''n''))) of
        Inl e \<Rightarrow> Inl e
      | Inr m \<Rightarrow> Inr \<lparr>success = False, message = m, data = None\<rparr>)"

definition connect :: "world \<Rightarrow> string option \<Rightarrow> run" where
  "connect w arg = (let modelId = model_or_default arg in try_catch (connect_try w modelId) connect_catch)"

subsection \<open>2. Text generation\<close>

definition generateText_prompt :: string where
  "generateText_prompt = ''Responde con una sola palabra: '' @ [apostrophe] @ ''Funciona'' @ [apostrophe]"

definition generateText_request :: "string \<Rightarrow> jsval" where
  "generateText_request modelId =
     JObj [(''model'', JStr modelId), (''contents'', JStr generateText_prompt)]"

definition generateText_try :: "world \<Rightarrow> string \<Rightarrow> run" where
  "generateText_try w modelId =
     (case getAIClient w of
        Inl error \<Rightarrow> ([], Inl error)
      | Inr ai \<Rightarrow>
          (let prompt = generateText_prompt;
               request = generateText_request modelId in
           ([Request ''generateContent'' request],
            case generateContent ai request of
              Inl error \<Rightarrow> Inl error
            | Inr response \<Rightarrow>
                (case get_prop response ''text'' of
                   Inl error \<Rightarrow> Inl error
                 | Inr text \<Rightarrow>
                     Inr \<lparr>success = True,
                          message = JStr (''Generaci'' @ [o_acute] @ ''n de texto correcta.''),
                          data = Some (JObj [(''model'', JStr modelId), (''prompt'', JStr prompt),
                                             (''output'', text)])\<rparr>))))"

definition generateText_catch :: "jsval \<Rightarrow> jsval + TestResult" where
  "generateText_catch error =
     (case get_prop error ''message'' of
        Inl e \<Rightarrow> Inl e
      | Inr m \<Rightarrow> Inr \<lparr>success = False, message = m, data = None\<rparr>)"

definition generateText :: "world \<Rightarrow> string option \<Rightarrow> run" where
  "generateText w arg =
     (let modelId = model_or_default arg in try_catch (generateText_try w modelId) generateText_catch)"

subsection \<open>3. Streaming\<close>

definition streamText_prompt :: string where
  "streamText_prompt = ''Escribe los n'' @ [u_acute] @ ''meros del 1 al 5 separados por comas.''"

definition streamText_request :: "string \<Rightarrow> jsval" where
  "streamText_request modelId =
     JObj [(''model'', JStr modelId), (''contents'', JStr streamText_prompt)]"

text \<open>
  The \<^verbatim>\<open>for await\<close> loop with its two variables: every chunk appends
  \<^verbatim>\<open>chunk.text\<close> to \<^verbatim>\<open>fullText\<close> and counts.
\<close>

fun for_await :: "response_stream \<Rightarrow> string \<Rightarrow> nat \<Rightarrow> jsval + (string \<times> nat)" where
  "for_await StreamEnd fullText chunkCount = Inr (fullText, chunkCount)"
| "for_await (StreamFail error) fullText chunkCount = Inl error"
| "for_await (StreamChunk chunk rest) fullText chunkCount =
     (case get_prop chunk ''text'' of
        Inl error \<Rightarrow> Inl error
      | Inr t \<Rightarrow>
          (case to_string t of
             Inl error \<Rightarrow> Inl error
           | Inr s \<Rightarrow> for_await rest (fullText @ s) (chunkCount + 1)))"

definition streamText_try :: "world \<Rightarrow> string \<Rightarrow> run" where
  "streamText_try w modelId =
     (case getAIClient w of
        Inl error \<Rightarrow> ([], Inl error)
      | Inr ai \<Rightarrow>
          (let request = streamText_request modelId in
           ([Request ''generateContentStream'' request],
            case generateContentStream ai request of
              Inl error \<Rightarrow> Inl error
            | Inr responseStream \<Rightarrow>
                (case for_await responseStream [] 0 of
                   Inl error \<Rightarrow> Inl error
                 | Inr (fullText, chunkCount) \<Rightarrow>
                     Inr \<lparr>success = True,
                          message = JStr (''Streaming completado en '' @ number_to_string (int chunkCount)
                                          @ '' fragmentos.''),
                          data = Some (JObj [(''model'', JStr modelId), (''fullText'', JStr fullText),
                                             (''chunkCount'', JNum (int chunkCount))])\<rparr>))))"

definition streamText_catch :: "jsval \<Rightarrow> jsval + TestResult" where
  "streamText_catch error =
     (case get_prop error ''message'' of
        Inl e \<Rightarrow> Inl e
      | Inr m \<Rightarrow> Inr \<lparr>success = False, message = m, data = None\<rparr>)"

definition streamText :: "world \<Rightarrow> string option \<Rightarrow> run" where
  "streamText w arg =
     (let modelId = model_or_default arg in try_catch (streamText_try w modelId) streamText_catch)"

subsection \<open>4. Token count\<close>

definition countTokens_prompt :: string where
  "countTokens_prompt = ''Why is the sky blue?''"

definition countTokens_request :: "string \<Rightarrow> jsval" where
  "countTokens_request modelId =
     JObj [(''model'', JStr modelId), (''contents'', JStr countTokens_prompt)]"

definition countTokens_try :: "world \<Rightarrow> string \<Rightarrow> run" where
  "countTokens_try w modelId =
     (case getAIClient w of
        Inl error \<Rightarrow> ([], Inl error)
      | Inr ai \<Rightarrow>
          (let prompt = countTokens_prompt;
               request = countTokens_request modelId in
           ([Request ''countTokens'' request],
            case countTokens ai request of
              Inl error \<Rightarrow> Inl error
            | Inr response \<Rightarrow>
                (case get_prop response ''totalTokens'' of
                   Inl error \<Rightarrow> Inl error
                 | Inr totalTokens \<Rightarrow>
                     Inr \<lparr>success = True,
                          message = JStr ''Conteo de tokens exitoso.'',
                          data = Some (JObj [(''model'', JStr modelId), (''prompt'', JStr prompt),
                                             (''totalTokens'', totalTokens)])\<rparr>))))"

definition countTokens_catch :: "jsval \<Rightarrow> jsval + TestResult" where
  "countTokens_catch error =
     (case get_prop error ''message'' of
        Inl e \<Rightarrow> Inl e
      | Inr m \<Rightarrow> Inr \<lparr>success = False, message = m, data = None\<rparr>)"

text \<open>
  The probe \<^verbatim>\<open>runGeminiTests.countTokens\<close>; the plain name is the client's method
  \<^verbatim>\<open>ai.models.countTokens\<close>.
\<close>

definition countTokens_probe :: "world \<Rightarrow> string option \<Rightarrow> run" where
  "countTokens_probe w arg =
     (let modelId = model_or_default arg in try_catch (countTokens_try w modelId) countTokens_catch)"

subsection \<open>5. Vision\<close>

definition vision_request :: "string \<Rightarrow> jsval" where
  "vision_request modelId =
     JObj [(''model'', JStr modelId),
           (''contents'',
            JObj [(''parts'',
                   JArr [JObj [(''inlineData'',
                               JObj [(''mimeType'', JStr ''image/png''),
                                     (''data'', JStr SAMPLE_IMAGE_BASE64)])],
                         JObj [(''text'',
                               JStr ''Describe esta imagen en 5 palabras o menos. (Es un pixel rojo)'')]])])]"

definition vision_try :: "world \<Rightarrow> string \<Rightarrow> run" where
  "vision_try w modelId =
     (case getAIClient w of
        Inl error \<Rightarrow> ([], Inl error)
      | Inr ai \<Rightarrow>
          (let request = vision_request modelId in
           ([Request ''generateContent'' request],
            case generateContent ai request of
              Inl error \<Rightarrow> Inl error
            | Inr response \<Rightarrow>
                (case get_prop response ''text'' of
                   Inl error \<Rightarrow> Inl error
                 | Inr text \<Rightarrow>
                     Inr \<lparr>success = True,
                          message = JStr (''An'' @ [a_acute] @ ''lisis de visi'' @ [o_acute] @ ''n completado.''),
                          data = Some (JObj [(''model'', JStr modelId), (''output'', text)])\<rparr>))))"

definition vision_catch :: "string \<Rightarrow> jsval \<Rightarrow> jsval + TestResult" where
  "vision_catch modelId error =
     (case get_prop error ''message'' of
        Inl e \<Rightarrow> Inl e
      | Inr m \<Rightarrow>
          (case to_string m of
             Inl e \<Rightarrow> Inl e
           | Inr s \<Rightarrow>
               Inr \<lparr>success = False,
                    message = JStr (''Error en visi'' @ [o_acute] @ ''n ('' @ modelId @ ''): '' @ s),
                    data = None\<rparr>))"

definition vision :: "world \<Rightarrow> string option \<Rightarrow> run" where
  "vision w arg =
     (let modelId = model_or_default arg in try_catch (vision_try w modelId) (vision_catch modelId))"

subsection \<open>6. System instruction\<close>

definition systemInstruction_instruction :: string where
  "systemInstruction_instruction =
     ''Eres un gato. Responde solo con '' @ [apostrophe] @ ''Miau'' @ [apostrophe] @ ''.''"

definition systemInstruction_prompt :: string where
  "systemInstruction_prompt =
     ''Hola, '' @ [inverted_question] @ ''c'' @ [o_acute] @ ''mo est'' @ [a_acute] @ ''s?''"

definition instruction_respected :: string where
  "instruction_respected = ''Instrucci'' @ [o_acute] @ ''n del sistema respetada.''"

definition instruction_not_followed :: string where
  "instruction_not_followed =
     ''El modelo no sigui'' @ [o_acute] @ '' la instrucci'' @ [o_acute] @ ''n del sistema estrictamente.''"

definition systemInstruction_request :: "string \<Rightarrow> jsval" where
  "systemInstruction_request modelId =
     JObj [(''model'', JStr modelId), (''contents'', JStr systemInstruction_prompt),
           (''config'', JObj [(''systemInstruction'', JStr systemInstruction_instruction)])]"

definition systemInstruction_try :: "world \<Rightarrow> string \<Rightarrow> run" where
  "systemInstruction_try w modelId =
     (case getAIClient w of
        Inl error \<Rightarrow> ([], Inl error)
      | Inr ai \<Rightarrow>
          (let instruction = systemInstruction_instruction;
               prompt = systemInstruction_prompt;
               request = systemInstruction_request modelId in
           ([Request ''generateContent'' request],
            case generateContent ai request of
              Inl error \<Rightarrow> Inl error
            | Inr response \<Rightarrow>
                (case js_or (get_prop response ''text'') (Inr (JStr [])) of
                   Inl error \<Rightarrow> Inl error
                 | Inr text \<Rightarrow>
                     (case toLowerCase text of
                        Inl error \<Rightarrow> Inl error
                      | Inr lower \<Rightarrow>
                          (let isCorrect = includes_str lower ''miau'' in
                           Inr \<lparr>success = isCorrect,
                                message = JStr (if isCorrect then instruction_respected
                                                else instruction_not_followed),
                                data = Some (JObj [(''model'', JStr modelId),
                                                   (''instruction'', JStr instruction),
                                                   (''prompt'', JStr prompt),
                                                   (''output'', text)])\<rparr>))))))"

definition systemInstruction_catch :: "jsval \<Rightarrow> jsval + TestResult" where
  "systemInstruction_catch error =
     (case get_prop error ''message'' of
        Inl e \<Rightarrow> Inl e
      | Inr m \<Rightarrow> Inr \<lparr>success = False, message = m, data = None\<rparr>)"

definition systemInstruction :: "world \<Rightarrow> string option \<Rightarrow> run" where
  "systemInstruction w arg =
     (let modelId = model_or_default arg in
      try_catch (systemInstruction_try w modelId) systemInstruction_catch)"

subsection \<open>7. Embedding\<close>

definition embedding_model :: string where
  "embedding_model = ''text-embedding-004''"

definition embedding_missing_message :: string where
  "embedding_missing_message =
     ''La respuesta no contiene valores de embedding. Revisa la consola para m'' @ [a_acute]
     @ ''s detalles.''"

definition embedding_text :: string where
  "embedding_text = ''Prueba de embedding''"

definition embedding_request :: jsval where
  "embedding_request =
     JObj [(''model'', JStr embedding_model),
           (''contents'', JArr [JObj [(''parts'', JArr [JObj [(''text'', JStr embedding_text)]])]])]"

definition embedding_try :: "world \<Rightarrow> run" where
  "embedding_try w =
     (case getAIClient w of
        Inl error \<Rightarrow> ([], Inl error)
      | Inr ai \<Rightarrow>
          (let model = embedding_model;
               request = embedding_request;
               sent = [Request ''embedContent'' request] in
           case embedContent ai request of
             Inl error \<Rightarrow> (sent, Inl error)
           | Inr response \<Rightarrow>
               (case js_and (js_and (Inr response) (get_prop response ''embedding''))
                            (get_path response [''embedding'', ''values'']) of
                  Inl error \<Rightarrow> (sent, Inl error)
                | Inr c \<Rightarrow>
                    if truthy c then
                      (sent,
                       case get_path response [''embedding'', ''values'', ''length''] of
                         Inl error \<Rightarrow> Inl error
                       | Inr n \<Rightarrow>
                           Inr \<lparr>success = True,
                                message = JStr ''Embedding generado correctamente.'',
                                data = Some (JObj [(''model'', JStr model), (''vectorLength'', n)])\<rparr>)
                    else
                      (sent @ [ConsoleWarn [JStr ''Embedding response missing values:'', response]],
                       Inl (new_Error embedding_missing_message)))))"

definition embedding_catch :: "jsval \<Rightarrow> jsval + TestResult" where
  "embedding_catch error =
     (case get_prop error ''message'' of
        Inl e \<Rightarrow> Inl e
      | Inr m \<Rightarrow> Inr \<lparr>success = False, message = m, data = None\<rparr>)"

definition embedding :: "world \<Rightarrow> run" where
  "embedding w = try_catch (embedding_try w) embedding_catch"

subsection \<open>The suite\<close>

text \<open>
  \<^verbatim>\<open>runGeminiTests\<close> maps the seven names to the probes. \<^verbatim>\<open>embedding\<close> declares no
  parameter: an argument passed to it is ignored.
\<close>

datatype probe = Connect | GenerateText | StreamText | CountTokens | Vision | SystemInstruction | Embedding

fun runGeminiTests :: "probe \<Rightarrow> world \<Rightarrow> string option \<Rightarrow> run" where
  "runGeminiTests Connect w arg = connect w arg"
| "runGeminiTests GenerateText w arg = generateText w arg"
| "runGeminiTests StreamText w arg = streamText w arg"
| "runGeminiTests CountTokens w arg = countTokens_probe w arg"
| "runGeminiTests Vision w arg = vision w arg"
| "runGeminiTests SystemInstruction w arg = systemInstruction w arg"
| "runGeminiTests Embedding w arg = embedding w"

text \<open>The \<^verbatim>\<open>try\<close> block of each probe, and the model identifier it runs with.\<close>

fun probe_try :: "probe \<Rightarrow> world \<Rightarrow> string option \<Rightarrow> run" where
  "probe_try Connect w arg = connect_try w (model_or_default arg)"
| "probe_try GenerateText w arg = generateText_try w (model_or_default arg)"
| "probe_try StreamText w arg = streamText_try w (model_or_default arg)"
| "probe_try CountTokens w arg = countTokens_try w (model_or_default arg)"
| "probe_try Vision w arg = vision_try w (model_or_default arg)"
| "probe_try SystemInstruction w arg = systemInstruction_try w (model_or_default arg)"
| "probe_try Embedding w arg = embedding_try w"

text \<open>The \<^verbatim>\<open>catch\<close> handler of each probe.\<close>

fun probe_catch :: "probe \<Rightarrow> string option \<Rightarrow> jsval \<Rightarrow> jsval + TestResult" where
  "probe_catch Connect arg = connect_catch"
| "probe_catch GenerateText arg = generateText_catch"
| "probe_catch StreamText arg = streamText_catch"
| "probe_catch CountTokens arg = countTokens_catch"
| "probe_catch Vision arg = vision_catch (model_or_default arg)"
| "probe_catch SystemInstruction arg = systemInstruction_catch"
| "probe_catch Embedding arg = embedding_catch"

section \<open>Notions the properties are stated with\<close>

text \<open>\<^verbatim>\<open>null\<close> and \<^verbatim>\<open>undefined\<close>, the values without properties.\<close>

definition nullish :: "jsval \<Rightarrow> bool" where
  "nullish v = (v = JUndefined \<or> v = JNull)"

text \<open>The \<^verbatim>\<open>message\<close> of a caught value can be read and converted to a string.\<close>

definition message_prints :: "jsval \<Rightarrow> bool" where
  "message_prints e =
     (case get_prop e ''message'' of
        Inl t \<Rightarrow> False
      | Inr m \<Rightarrow> (case to_string m of Inl t \<Rightarrow> False | Inr s \<Rightarrow> True))"




text \<open>A stream that delivers the given chunks and completes.\<close>

fun completed_stream :: "jsval list \<Rightarrow> response_stream" where
  "completed_stream [] = StreamEnd"
| "completed_stream (c # cs) = StreamChunk c (completed_stream cs)"

text \<open>The model identifiers of the requests a run sent, in order.\<close>

fun outbound_models :: "event list \<Rightarrow> (jsval + jsval) list" where
  "outbound_models [] = []"
| "outbound_models (Request method req # es) = get_prop req ''model'' # outbound_models es"
| "outbound_models (ConsoleWarn args # es) = outbound_models es"

text \<open>
  The specification's reading of the keyword check, stated apart from the code: some
  four consecutive characters of the text spell \<^verbatim>\<open>miau\<close>, each in either case.
\<close>

definition contains_miau_ignoring_case :: "string \<Rightarrow> bool" where
  "contains_miau_ignoring_case s =
     (\<exists>pre c1 c2 c3 c4 post. s = pre @ [c1, c2, c3, c4] @ post \<and>
        (c1 = CHR ''m'' \<or> c1 = CHR ''M'') \<and> (c2 = CHR ''i'' \<or> c2 = CHR ''I'') \<and>
        (c3 = CHR ''a'' \<or> c3 = CHR ''A'') \<and> (c4 = CHR ''u'' \<or> c4 = CHR ''U''))"

section \<open>Sample stubs\<close>

text \<open>
  Concrete stubs on which the properties below are run. \<open>quiet_client\<close> resolves every
  call with \<^verbatim>\<open>undefined\<close> and streams nothing; \<open>world_with\<close> sets a key and a
  constructor that hands out the given client.
\<close>

definition quiet_client :: client where
  "quiet_client =
     \<lparr>generateContent = (\<lambda>req. Inr JUndefined),
      generateContentStream = (\<lambda>req. Inr StreamEnd),
      countTokens = (\<lambda>req. Inr JUndefined),
      embedContent = (\<lambda>req. Inr JUndefined)\<rparr>"

definition world_with :: "client \<Rightarrow> world" where
  "world_with ai = \<lparr>API_KEY = Some ''test-key'', GoogleGenAI = (\<lambda>opts. Inr ai)\<rparr>"

definition replying :: "string \<Rightarrow> world" where
  "replying s =
     world_with (quiet_client\<lparr>generateContent := (\<lambda>req. Inr (JObj [(''text'', JStr s)]))\<rparr>)"

definition w_nokey :: world where
  "w_nokey = \<lparr>API_KEY = None, GoogleGenAI = (\<lambda>opts. Inl JNull)\<rparr>"

definition streaming :: "response_stream \<Rightarrow> world" where
  "streaming st = world_with (quiet_client\<lparr>generateContentStream := (\<lambda>req. Inr st)\<rparr>)"

definition one_two_three :: "jsval list" where
  "one_two_three = [JObj [(''text'', JStr ''1,'')], JObj [(''text'', JStr ''2,'')], JObj [(''text'', JStr ''3'')]]"




definition rejecting_with :: "jsval \<Rightarrow> world" where
  "rejecting_with e = world_with (quiet_client\<lparr>generateContent := (\<lambda>req. Inl e)\<rparr>)"


definition count_rejected :: world where
  "count_rejected =
     world_with (quiet_client\<lparr>countTokens := (\<lambda>req. Inl (new_Error ''quota exceeded''))\<rparr>)"

section \<open>Strings: lower case and substrings\<close>

lemma to_lower_char_letter:
  assumes l: "97 \<le> (of_char d :: nat)" "(of_char d :: nat) \<le> 122"
  shows "to_lower_char c = d \<longleftrightarrow> (of_char c :: nat) = of_char d \<or> (of_char c :: nat) + 32 = of_char d"
proof -
  define n where "n = (of_char c :: nat)"
  define k where "k = (of_char d :: nat)"
  have n: "n < 256" unfolding n_def by simp
  have c: "c = char_of n" unfolding n_def by simp
  have d: "d = char_of k" unfolding k_def by simp
  have k: "97 \<le> k" "k \<le> 122" using l unfolding k_def by auto
  have eq: "\<And>a b::nat. a < 256 \<Longrightarrow> b < 256 \<Longrightarrow> (char_of a = (char_of b :: char)) = (a = b)"
    by (simp add: char_of_eq_iff take_bit_eq_mod)
  show ?thesis
    unfolding n_def[symmetric] k_def[symmetric]
    using n k unfolding to_lower_char_def Let_def n_def[symmetric]
    apply (simp only: c d)
    apply (simp add: eq)
    apply (auto simp: eq)
    done
qed

lemma lower_m: "to_lower_char c = CHR ''m'' \<longleftrightarrow> c = CHR ''m'' \<or> c = CHR ''M''"
proof -
  have "to_lower_char c = CHR ''m'' \<longleftrightarrow> (of_char c :: nat) = 109 \<or> (of_char c :: nat) = 77"
    using to_lower_char_letter[of "CHR ''m''" c] by auto
  also have "\<dots> \<longleftrightarrow> (of_char c :: nat) = of_char (CHR ''m'') \<or> (of_char c :: nat) = of_char (CHR ''M'')"
    by simp
  also have "\<dots> \<longleftrightarrow> c = CHR ''m'' \<or> c = CHR ''M''"
    by (simp only: of_char_eq_iff)
  finally show ?thesis .
qed

lemma lower_i: "to_lower_char c = CHR ''i'' \<longleftrightarrow> c = CHR ''i'' \<or> c = CHR ''I''"
proof -
  have "to_lower_char c = CHR ''i'' \<longleftrightarrow> (of_char c :: nat) = 105 \<or> (of_char c :: nat) = 73"
    using to_lower_char_letter[of "CHR ''i''" c] by auto
  also have "\<dots> \<longleftrightarrow> (of_char c :: nat) = of_char (CHR ''i'') \<or> (of_char c :: nat) = of_char (CHR ''I'')"
    by simp
  also have "\<dots> \<longleftrightarrow> c = CHR ''i'' \<or> c = CHR ''I''"
    by (simp only: of_char_eq_iff)
  finally show ?thesis .
qed

lemma lower_a: "to_lower_char c = CHR ''a'' \<longleftrightarrow> c = CHR ''a'' \<or> c = CHR ''A''"
proof -
  have "to_lower_char c = CHR ''a'' \<longleftrightarrow> (of_char c :: nat) = 97 \<or> (of_char c :: nat) = 65"
    using to_lower_char_letter[of "CHR ''a''" c] by auto
  also have "\<dots> \<longleftrightarrow> (of_char c :: nat) = of_char (CHR ''a'') \<or> (of_char c :: nat) = of_char (CHR ''A'')"
    by simp
  also have "\<dots> \<longleftrightarrow> c = CHR ''a'' \<or> c = CHR ''A''"
    by (simp only: of_char_eq_iff)
  finally show ?thesis .
qed

lemma lower_u: "to_lower_char c = CHR ''u'' \<longleftrightarrow> c = CHR ''u'' \<or> c = CHR ''U''"
proof -
  have "to_lower_char c = CHR ''u'' \<longleftrightarrow> (of_char c :: nat) = 117 \<or> (of_char c :: nat) = 85"
    using to_lower_char_letter[of "CHR ''u''" c] by auto
  also have "\<dots> \<longleftrightarrow> (of_char c :: nat) = of_char (CHR ''u'') \<or> (of_char c :: nat) = of_char (CHR ''U'')"
    by simp
  also have "\<dots> \<longleftrightarrow> c = CHR ''u'' \<or> c = CHR ''U''"
    by (simp only: of_char_eq_iff)
  finally show ?thesis .
qed

lemma starts_with_iff: "starts_with s t \<longleftrightarrow> (\<exists>post. s = t @ post)"
  by (induction s t rule: starts_with.induct) auto

lemma includes_str_iff: "includes_str s t \<longleftrightarrow> (\<exists>pre post. s = pre @ t @ post)"
proof (induction s)
  case Nil
  show ?case by auto
next
  case (Cons x xs)
  show ?case
  proof
    assume "includes_str (x # xs) t"
    then consider "starts_with (x # xs) t" | "includes_str xs t" by auto
    then show "\<exists>pre post. x # xs = pre @ t @ post"
    proof cases
      case 1
      then obtain post where "x # xs = t @ post" by (auto simp: starts_with_iff)
      then have "x # xs = [] @ t @ post" by simp
      then show ?thesis by blast
    next
      case 2
      then obtain pre post where "xs = pre @ t @ post" using Cons.IH by auto
      then have "x # xs = (x # pre) @ t @ post" by simp
      then show ?thesis by blast
    qed
  next
    assume "\<exists>pre post. x # xs = pre @ t @ post"
    then obtain pre post where e: "x # xs = pre @ t @ post" by auto
    show "includes_str (x # xs) t"
    proof (cases pre)
      case Nil
      then have "starts_with (x # xs) t" using e by (auto simp: starts_with_iff)
      then show ?thesis by simp
    next
      case (Cons p ps)
      then have "xs = ps @ t @ post" using e by simp
      then have "includes_str xs t" using Cons.IH by blast
      then show ?thesis by simp
    qed
  qed
qed

lemma lowered_includes_miau:
  "includes_str (map to_lower_char s) ''miau'' \<longleftrightarrow> contains_miau_ignoring_case s"
proof
  assume "includes_str (map to_lower_char s) ''miau''"
  then obtain pre' post' where "map to_lower_char s = pre' @ ''miau'' @ post'"
    unfolding includes_str_iff by blast
  then obtain pre rest where s: "s = pre @ rest"
    and rest: "map to_lower_char rest = ''miau'' @ post'"
    by (auto simp: map_eq_append_conv)
  from rest obtain c1 c2 c3 c4 post where r: "rest = [c1, c2, c3, c4] @ post"
    and l: "to_lower_char c1 = CHR ''m''" "to_lower_char c2 = CHR ''i''"
           "to_lower_char c3 = CHR ''a''" "to_lower_char c4 = CHR ''u''"
    by (auto simp: map_eq_Cons_conv)
  have "s = pre @ [c1, c2, c3, c4] @ post" using s r by simp
  moreover have "c1 = CHR ''m'' \<or> c1 = CHR ''M''" using l(1) by (simp only: lower_m)
  moreover have "c2 = CHR ''i'' \<or> c2 = CHR ''I''" using l(2) by (simp only: lower_i)
  moreover have "c3 = CHR ''a'' \<or> c3 = CHR ''A''" using l(3) by (simp only: lower_a)
  moreover have "c4 = CHR ''u'' \<or> c4 = CHR ''U''" using l(4) by (simp only: lower_u)
  ultimately show "contains_miau_ignoring_case s"
    unfolding contains_miau_ignoring_case_def by blast
next
  assume "contains_miau_ignoring_case s"
  then obtain pre c1 c2 c3 c4 post where s: "s = pre @ [c1, c2, c3, c4] @ post"
    and c: "c1 = CHR ''m'' \<or> c1 = CHR ''M''" "c2 = CHR ''i'' \<or> c2 = CHR ''I''"
           "c3 = CHR ''a'' \<or> c3 = CHR ''A''" "c4 = CHR ''u'' \<or> c4 = CHR ''U''"
    unfolding contains_miau_ignoring_case_def by blast
  have l: "to_lower_char c1 = CHR ''m''" "to_lower_char c2 = CHR ''i''"
          "to_lower_char c3 = CHR ''a''" "to_lower_char c4 = CHR ''u''"
    using c by (simp_all only: lower_m lower_i lower_a lower_u)
  have "map to_lower_char s = map to_lower_char pre @ ''miau'' @ map to_lower_char post"
    using s l by simp
  then show "includes_str (map to_lower_char s) ''miau''"
    unfolding includes_str_iff by blast
qed

section \<open>Properties of the probes\<close>

subsection \<open>Values and property access\<close>

lemma getAIClient_world_with: "getAIClient (world_with ai) = Inr ai"
  by (simp add: getAIClient_def world_with_def)

lemma text_read_object: "get_prop response ''text'' = Inr (JStr s) \<Longrightarrow> truthy response"
  by (cases response) (auto split: if_splits)

lemma get_prop_message_TypeError: "get_prop (new_TypeError msg) ''message'' = Inr (JStr msg)"
  by (simp add: new_TypeError_def)

lemma get_prop_message_Error: "get_prop (new_Error msg) ''message'' = Inr (JStr msg)"
  by (simp add: new_Error_def)

lemma get_prop_Inr_object: "get_prop v p = Inr u \<Longrightarrow> truthy u \<Longrightarrow> p \<noteq> ''length'' \<Longrightarrow> truthy v"
  by (cases v) (auto split: if_splits)

lemma get_prop_Inl: "get_prop v p = Inl e \<Longrightarrow> \<exists>msg. e = new_TypeError msg"
  by (cases v) auto

lemma not_nullish_Error [simp]: "\<not> nullish (new_Error msg)" "\<not> nullish (new_TypeError msg)"
  by (simp_all add: nullish_def new_Error_def new_TypeError_def)



lemma message_prints_Error [simp]:
  "message_prints (new_Error msg)" "message_prints (new_TypeError msg)"
  by (simp_all add: message_prints_def new_Error_def new_TypeError_def)

lemma number_to_string_nat [simp]: "number_to_string (int n) = string_of_nat n"
  by (simp add: number_to_string_def)







subsection \<open>What a try block throws, and what the handlers return\<close>












lemma runGeminiTests_try_catch:
  "runGeminiTests p w arg = try_catch (probe_try p w arg) (probe_catch p arg)"
  by (cases p)
     (simp_all add: connect_def generateText_def streamText_def countTokens_probe_def vision_def
        systemInstruction_def embedding_def Let_def)





lemma probe_catch_shape:
  "probe_catch p arg e = Inr r \<Longrightarrow> \<not> success r \<and> data r = None"
  by (cases p)
     (auto simp: connect_catch_def generateText_catch_def streamText_catch_def
        countTokens_catch_def vision_catch_def systemInstruction_catch_def embedding_catch_def
        js_or_def split: sum.splits if_splits)


subsection \<open>Missing credential\<close>

text \<open>
  C2. With \<^verbatim>\<open>API_KEY\<close> absent every probe resolves, without sending a request, with
  \<^verbatim>\<open>success: false\<close> and the missing-key message; the vision probe wraps that message
  in its own prefix.
\<close>

theorem missing_key_reported:
  assumes "API_KEY w = None"
  shows "runGeminiTests p w arg =
           ([], Inr \<lparr>success = False,
                     message = JStr (if p = Vision
                                     then ''Error en visi'' @ [o_acute] @ ''n ('' @ model_or_default arg @ ''): '' @ missing_key_message
                                     else missing_key_message),
                     data = None\<rparr>)"
  using assms
  by (cases p) (simp_all add: connect_def generateText_def streamText_def countTokens_probe_def
     vision_def systemInstruction_def embedding_def
     connect_try_def generateText_try_def streamText_try_def countTokens_try_def
     vision_try_def systemInstruction_try_def embedding_try_def getAIClient_def
     try_catch_def connect_catch_def generateText_catch_def streamText_catch_def countTokens_catch_def
     vision_catch_def systemInstruction_catch_def embedding_catch_def new_Error_def js_or_def missing_key_message_def)

theorem missing_key_reported_witness:
  "API_KEY w_nokey = None \<and>
   runGeminiTests Connect w_nokey None =
     ([], Inr \<lparr>success = False, message = JStr ''API Key no encontrada en process.env.API_KEY'', data = None\<rparr>)
   \<and> runGeminiTests Vision w_nokey (Some ''gemini-2.5-pro'') =
     ([], Inr \<lparr>success = False, message = JStr (''Error en visi'' @ [o_acute] @ ''n (gemini-2.5-pro): API Key no encontrada en process.env.API_KEY''), data = None\<rparr>)"
  using missing_key_reported [of w_nokey Connect None] missing_key_reported [of w_nokey Vision "Some ''gemini-2.5-pro''"]
  by (simp add: w_nokey_def missing_key_message_def model_or_default_def)

subsection \<open>Connectivity\<close>

text \<open>
  C5. The connect probe on a completed call: an empty text gives \<^verbatim>\<open>success: false\<close>
  with the message of the empty-response error, a non-empty text such as \<^verbatim>\<open>pong\<close>
  gives \<^verbatim>\<open>success: true\<close> with the text as \<^verbatim>\<open>data.reply\<close>.
\<close>

theorem connect_requires_reply:
  assumes "getAIClient w = Inr ai"
    and "generateContent ai (connect_request (model_or_default arg)) = Inr response"
    and "get_prop response ''text'' = Inr (JStr s)"
  shows "snd (connect w arg) =
           Inr (if s = []
                then \<lparr>success = False,
                      message = JStr (''Respuesta vac'' @ [i_acute] @ ''a del servidor.''),
                      data = None\<rparr>
                else \<lparr>success = True,
                      message = JStr (''Conexi'' @ [o_acute] @ ''n exitosa con '' @ model_or_default arg @ ''.''),
                      data = Some (JObj [(''reply'', JStr s)])\<rparr>)"
  using assms text_read_object[OF assms(3)]
  by (simp add: connect_def connect_try_def try_catch_def connect_catch_def js_and_def js_or_def
      new_Error_def Let_def)

theorem connect_requires_reply_witness:
  "snd (connect (replying []) None) =
     Inr \<lparr>success = False, message = JStr (''Respuesta vac'' @ [i_acute] @ ''a del servidor.''), data = None\<rparr>
   \<and> snd (connect (replying ''pong'') None) =
     Inr \<lparr>success = True, message = JStr (''Conexi'' @ [o_acute] @ ''n exitosa con gemini-2.5-flash.''),
          data = Some (JObj [(''reply'', JStr ''pong'')])\<rparr>"
  using connect_requires_reply [of "replying []" "quiet_client\<lparr>generateContent := (\<lambda>req. Inr (JObj [(''text'', JStr [])]))\<rparr>" None "JObj [(''text'', JStr [])]" "[]"]
        connect_requires_reply [of "replying ''pong''" "quiet_client\<lparr>generateContent := (\<lambda>req. Inr (JObj [(''text'', JStr ''pong'')]))\<rparr>" None "JObj [(''text'', JStr ''pong'')]" "''pong''"]
  by (simp add: replying_def getAIClient_world_with model_or_default_def default_model_def)

subsection \<open>Text generation\<close>

text \<open>
  C7. The generateText probe on a completed call succeeds whatever the produced text is,
  the empty text included, and returns the model, the prompt and the output as data.
\<close>

theorem generateText_accepts_any_output:
  assumes "getAIClient w = Inr ai"
    and "generateContent ai (generateText_request (model_or_default arg)) = Inr response"
    and "get_prop response ''text'' = Inr output"
  shows "snd (generateText w arg) =
           Inr \<lparr>success = True,
                message = JStr (''Generaci'' @ [o_acute] @ ''n de texto correcta.''),
                data = Some (JObj [(''model'', JStr (model_or_default arg)),
                                   (''prompt'', JStr generateText_prompt),
                                   (''output'', output)])\<rparr>"
  using assms
  by (simp add: generateText_def generateText_try_def try_catch_def Let_def)

theorem generateText_accepts_any_output_witness:
  "snd (generateText (replying []) None) =
           Inr \<lparr>success = True,
                message = JStr (''Generaci'' @ [o_acute] @ ''n de texto correcta.''),
                data = Some (JObj [(''model'', JStr ''gemini-2.5-flash''),
                                   (''prompt'', JStr generateText_prompt),
                                   (''output'', JStr [])])\<rparr>"
  using generateText_accepts_any_output [of "replying []" "quiet_client\<lparr>generateContent := (\<lambda>req. Inr (JObj [(''text'', JStr [])]))\<rparr>" None "JObj [(''text'', JStr [])]" "JStr []"]
  by (simp add: replying_def getAIClient_world_with model_or_default_def default_model_def)

subsection \<open>System instruction\<close>

lemma systemInstruction_try_text:
  assumes "getAIClient w = Inr ai"
    and "generateContent ai (systemInstruction_request m) = Inr response"
    and "get_prop response ''text'' = Inr (JStr s)"
  shows "snd (systemInstruction_try w m) =
           Inr \<lparr>success = contains_miau_ignoring_case s,
                message = JStr (if contains_miau_ignoring_case s then instruction_respected
                                else instruction_not_followed),
                data = Some (JObj [(''model'', JStr m),
                                   (''instruction'', JStr systemInstruction_instruction),
                                   (''prompt'', JStr systemInstruction_prompt),
                                   (''output'', JStr s)])\<rparr>"
  using assms
  by (simp add: systemInstruction_try_def js_or_def toLowerCase_def Let_def lowered_includes_miau[symmetric])

lemma systemInstruction_no_text:
  assumes "getAIClient w = Inr ai"
    and "generateContent ai (systemInstruction_request m) = Inr response"
    and "\<forall>s. get_prop response ''text'' \<noteq> Inr (JStr s)"
  shows "\<exists>r. snd (try_catch (systemInstruction_try w m) systemInstruction_catch) = Inr r \<and> \<not> success r"
proof (cases "get_prop response ''text''")
  case (Inl e)
  then obtain msg where "e = new_TypeError msg" using get_prop_Inl by blast
  then show ?thesis using assms(1,2) Inl
    by (simp add: systemInstruction_try_def try_catch_def systemInstruction_catch_def js_or_def Let_def
        get_prop_message_TypeError)
next
  case (Inr t)
  then have t: "\<forall>s. t \<noteq> JStr s" using assms(3) by auto
  show ?thesis
  proof (cases "truthy t")
    case True
    then obtain msg where "toLowerCase t = Inl (new_TypeError msg)"
      using t by (cases t) (auto simp: toLowerCase_def)
    then show ?thesis using assms(1,2) Inr True
      by (simp add: systemInstruction_try_def try_catch_def systemInstruction_catch_def js_or_def Let_def
          get_prop_message_TypeError)
  next
    case False
    then show ?thesis using assms(1,2) Inr
      by (simp add: systemInstruction_try_def try_catch_def systemInstruction_catch_def js_or_def Let_def
          toLowerCase_def)
  qed
qed

lemma contains_miau_Miau: "contains_miau_ignoring_case ''Miau!''"
  unfolding lowered_includes_miau[symmetric] by code_simp

lemma contains_miau_Hello: "\<not> contains_miau_ignoring_case ''Hello''"
  unfolding lowered_includes_miau[symmetric] by code_simp

text \<open>
  C3. The systemInstruction probe on a completed call resolves with a record whose
  \<open>success\<close> holds exactly when the produced text contains \<^verbatim>\<open>miau\<close> in any mix of
  cases. With the text \<^verbatim>\<open>Miau!\<close> it succeeds; with \<^verbatim>\<open>Hello\<close> it fails with the
  message that the instruction was not followed, and still returns the data.
\<close>

theorem systemInstruction_success_iff_keyword:
  assumes "getAIClient w = Inr ai"
    and "generateContent ai (systemInstruction_request (model_or_default arg)) = Inr response"
  shows "\<exists>r. snd (systemInstruction w arg) = Inr r \<and>
             (success r \<longleftrightarrow>
                (\<exists>s. get_prop response ''text'' = Inr (JStr s) \<and> contains_miau_ignoring_case s)) \<and>
             (\<forall>s. get_prop response ''text'' = Inr (JStr s) \<longrightarrow>
                  r = \<lparr>success = contains_miau_ignoring_case s,
                       message = JStr (if contains_miau_ignoring_case s then instruction_respected
                                       else instruction_not_followed),
                       data = Some (JObj [(''model'', JStr (model_or_default arg)),
                                          (''instruction'', JStr systemInstruction_instruction),
                                          (''prompt'', JStr systemInstruction_prompt),
                                          (''output'', JStr s)])\<rparr>)"
proof (cases "\<exists>s. get_prop response ''text'' = Inr (JStr s)")
  case True
  then obtain s where s: "get_prop response ''text'' = Inr (JStr s)" by blast
  have "snd (systemInstruction w arg) = snd (systemInstruction_try w (model_or_default arg))"
    using systemInstruction_try_text[OF assms s]
    by (simp add: systemInstruction_def try_catch_def Let_def)
  then show ?thesis using systemInstruction_try_text[OF assms s] s by simp
next
  case False
  then have "\<forall>s. get_prop response ''text'' \<noteq> Inr (JStr s)" by simp
  from systemInstruction_no_text[OF assms this] False show ?thesis
    by (auto simp: systemInstruction_def Let_def)
qed

theorem systemInstruction_success_iff_keyword_witness:
  "snd (systemInstruction (replying ''Miau!'') None) =
     Inr \<lparr>success = True, message = JStr instruction_respected,
          data = Some (JObj [(''model'', JStr ''gemini-2.5-flash''),
                             (''instruction'', JStr systemInstruction_instruction),
                             (''prompt'', JStr systemInstruction_prompt),
                             (''output'', JStr ''Miau!'')])\<rparr>
   \<and> snd (systemInstruction (replying ''Hello'') None) =
     Inr \<lparr>success = False, message = JStr instruction_not_followed,
          data = Some (JObj [(''model'', JStr ''gemini-2.5-flash''),
                             (''instruction'', JStr systemInstruction_instruction),
                             (''prompt'', JStr systemInstruction_prompt),
                             (''output'', JStr ''Hello'')])\<rparr>
   \<and> instruction_not_followed \<noteq> instruction_respected"
  using systemInstruction_success_iff_keyword [of "replying ''Miau!''"
          "quiet_client\<lparr>generateContent := (\<lambda>req. Inr (JObj [(''text'', JStr ''Miau!'')]))\<rparr>" None
          "JObj [(''text'', JStr ''Miau!'')]"]
        systemInstruction_success_iff_keyword [of "replying ''Hello''"
          "quiet_client\<lparr>generateContent := (\<lambda>req. Inr (JObj [(''text'', JStr ''Hello'')]))\<rparr>" None
          "JObj [(''text'', JStr ''Hello'')]"]
        contains_miau_Miau contains_miau_Hello
  by (auto simp: replying_def getAIClient_world_with model_or_default_def default_model_def
      instruction_not_followed_def instruction_respected_def)

subsection \<open>Streaming\<close>

lemma for_await_completed:
  "map (\<lambda>c. get_prop c ''text'') chunks = map (\<lambda>s. Inr (JStr s)) frags \<Longrightarrow>
   for_await (completed_stream chunks) fullText chunkCount =
     Inr (fullText @ concat frags, chunkCount + length frags)"
proof (induction chunks arbitrary: frags fullText chunkCount)
  case Nil
  then show ?case by simp
next
  case (Cons c cs)
  then obtain s ss where frags: "frags = s # ss" and c: "get_prop c ''text'' = Inr (JStr s)"
    and cs: "map (\<lambda>c. get_prop c ''text'') cs = map (\<lambda>s. Inr (JStr s)) ss"
    by (cases frags) auto
  show ?case using Cons.IH[OF cs] c by (simp add: frags)
qed

text \<open>
  C4. The streamText probe on a stream that delivers text fragments and completes:
  \<^verbatim>\<open>fullText\<close> is the fragments concatenated in arrival order and \<^verbatim>\<open>chunkCount\<close>
  their number; the fragments \<^verbatim>\<open>1,\<close> \<^verbatim>\<open>2,\<close> \<^verbatim>\<open>3\<close> give \<^verbatim>\<open>1,2,3\<close> and 3.
\<close>

theorem streamText_concatenates_in_order:
  assumes "getAIClient w = Inr ai"
    and "generateContentStream ai (streamText_request (model_or_default arg)) = Inr (completed_stream chunks)"
    and "map (\<lambda>c. get_prop c ''text'') chunks = map (\<lambda>s. Inr (JStr s)) frags"
  shows "snd (streamText w arg) =
           Inr \<lparr>success = True,
                message = JStr (''Streaming completado en '' @ string_of_nat (length frags) @ '' fragmentos.''),
                data = Some (JObj [(''model'', JStr (model_or_default arg)),
                                   (''fullText'', JStr (concat frags)),
                                   (''chunkCount'', JNum (int (length frags)))])\<rparr>"
  using assms(1,2) for_await_completed[OF assms(3), of "[]" 0]
  by (simp add: streamText_def streamText_try_def try_catch_def Let_def)

theorem streamText_concatenates_in_order_witness:
  "snd (streamText (streaming (completed_stream one_two_three)) None) =
           Inr \<lparr>success = True,
                message = JStr ''Streaming completado en 3 fragmentos.'',
                data = Some (JObj [(''model'', JStr ''gemini-2.5-flash''),
                                   (''fullText'', JStr ''1,2,3''),
                                   (''chunkCount'', JNum 3)])\<rparr>"
  using streamText_concatenates_in_order [of "streaming (completed_stream one_two_three)"
          "quiet_client\<lparr>generateContentStream := (\<lambda>req. Inr (completed_stream one_two_three))\<rparr>"
          None one_two_three "[''1,'', ''2,'', ''3'']"]
  by (simp add: streaming_def getAIClient_world_with model_or_default_def default_model_def
      one_two_three_def string_of_nat.simps)

subsection \<open>Embedding\<close>




text \<open>
  An array as the \<^verbatim>\<open>embedding\<close> container is not a missing vector: its inherited method
  \<^verbatim>\<open>values\<close> passes the check, nothing is logged, and the length reported is the
  method's, 0.
\<close>

lemma embedding_array_container:
  assumes "getAIClient w = Inr ai"
    and "embedContent ai embedding_request = Inr response"
    and "get_prop response ''embedding'' = Inr (JArr xs)"
  shows "embedding w =
           ([Request ''embedContent'' embedding_request],
            Inr \<lparr>success = True,
                 message = JStr ''Embedding generado correctamente.'',
                 data = Some (JObj [(''model'', JStr embedding_model),
                                    (''vectorLength'', JNum 0)])\<rparr>)"
proof -
  have "truthy response" using get_prop_Inr_object[OF assms(3)] by simp
  then show ?thesis
    using assms
    by (simp add: embedding_def embedding_try_def try_catch_def js_and_def Let_def)
qed



subsection \<open>The probe boundary\<close>





subsection \<open>Failure records and their data\<close>

lemma connect_try_success: "snd (connect_try w m) = Inr r \<longrightarrow> success r"
  by (auto simp add: connect_try_def Let_def split: sum.split)

lemma generateText_try_success: "snd (generateText_try w m) = Inr r \<longrightarrow> success r"
  by (auto simp add: generateText_try_def Let_def split: sum.split)

lemma streamText_try_success: "snd (streamText_try w m) = Inr r \<longrightarrow> success r"
  by (auto simp add: streamText_try_def Let_def split: sum.split prod.split)

lemma countTokens_try_success: "snd (countTokens_try w m) = Inr r \<longrightarrow> success r"
  by (auto simp add: countTokens_try_def Let_def split: sum.split)

lemma vision_try_success: "snd (vision_try w m) = Inr r \<longrightarrow> success r"
  by (auto simp add: vision_try_def Let_def split: sum.split)

lemma embedding_try_success: "snd (embedding_try w) = Inr r \<longrightarrow> success r"
  by (auto simp add: embedding_try_def Let_def split: sum.split)

lemma systemInstruction_try_failure:
  "snd (systemInstruction_try w m) = Inr r \<and> \<not> success r \<longrightarrow>
     message r = JStr instruction_not_followed \<and>
     (\<exists>output. data r = Some (JObj [(''model'', JStr m),
                                    (''instruction'', JStr systemInstruction_instruction),
                                    (''prompt'', JStr systemInstruction_prompt),
                                    (''output'', output)]))"
  by (auto simp add: systemInstruction_try_def Let_def split: sum.split)

lemma probe_try_success_or_validation:
  assumes "snd (probe_try p w arg) = Inr r" and "\<not> success r"
  shows "p = SystemInstruction \<and> message r = JStr instruction_not_followed \<and>
         (\<exists>output. data r = Some (JObj [(''model'', JStr (model_or_default arg)),
                                        (''instruction'', JStr systemInstruction_instruction),
                                        (''prompt'', JStr systemInstruction_prompt),
                                        (''output'', output)]))"
proof (cases p)
  case SystemInstruction
  then show ?thesis using assms systemInstruction_try_failure[of w "model_or_default arg" r] by simp
qed (use assms connect_try_success generateText_try_success streamText_try_success
       countTokens_try_success vision_try_success embedding_try_success in auto)

lemma count_rejected_run:
  "snd (probe_try CountTokens count_rejected None) = Inl (new_Error ''quota exceeded'')"
  "snd (runGeminiTests CountTokens count_rejected None) =
     Inr \<lparr>success = False, message = JStr ''quota exceeded'', data = None\<rparr>"
  by (simp_all add: count_rejected_def world_with_def quiet_client_def countTokens_probe_def
      countTokens_try_def countTokens_catch_def getAIClient_def try_catch_def Let_def
      get_prop_message_Error)

lemma hello_run:
  "snd (probe_try SystemInstruction (replying ''Hello'') None) =
     Inr \<lparr>success = False, message = JStr instruction_not_followed,
          data = Some (JObj [(''model'', JStr ''gemini-2.5-flash''),
                             (''instruction'', JStr systemInstruction_instruction),
                             (''prompt'', JStr systemInstruction_prompt),
                             (''output'', JStr ''Hello'')])\<rparr>"
  using systemInstruction_try_text[of "replying ''Hello''"
          "quiet_client\<lparr>generateContent := (\<lambda>req. Inr (JObj [(''text'', JStr ''Hello'')]))\<rparr>"
          "model_or_default None" "JObj [(''text'', JStr ''Hello'')]" "''Hello''"]
        contains_miau_Hello
  by (simp add: replying_def getAIClient_world_with model_or_default_def default_model_def)

text \<open>
  C10. A record with \<^verbatim>\<open>success: false\<close> that comes from a \<^verbatim>\<open>catch\<close> handler (the
  \<^verbatim>\<open>try\<close> block threw) has no data. The only failure record a \<^verbatim>\<open>try\<close> block
  itself returns is the systemInstruction probe's, with the not-followed message and the
  full data: model, instruction, prompt and output.
\<close>

theorem failure_carries_data_only_on_validation:
  assumes "snd (runGeminiTests p w arg) = Inr r" and "\<not> success r"
  shows "(\<forall>e. snd (probe_try p w arg) = Inl e \<longrightarrow> data r = None) \<and>
         (\<forall>r'. snd (probe_try p w arg) = Inr r' \<longrightarrow>
              r = r' \<and> p = SystemInstruction \<and> message r = JStr instruction_not_followed \<and>
              (\<exists>output. data r = Some (JObj [(''model'', JStr (model_or_default arg)),
                                             (''instruction'', JStr systemInstruction_instruction),
                                             (''prompt'', JStr systemInstruction_prompt),
                                             (''output'', output)])))"
proof (cases "snd (probe_try p w arg)")
  case (Inl e)
  then have "probe_catch p arg e = Inr r"
    using assms(1) by (simp add: runGeminiTests_try_catch try_catch_def)
  then show ?thesis using Inl probe_catch_shape by auto
next
  case (Inr r')
  then have "r = r'" using assms(1) by (simp add: runGeminiTests_try_catch try_catch_def)
  then show ?thesis using Inr probe_try_success_or_validation[of p w arg r] assms(2) by auto
qed

theorem failure_carries_data_only_on_validation_witness:
  "snd (runGeminiTests CountTokens count_rejected None) =
     Inr \<lparr>success = False, message = JStr ''quota exceeded'', data = None\<rparr> \<and>
   data \<lparr>success = False, message = JStr ''quota exceeded'', data = None\<rparr> = None \<and>
   snd (runGeminiTests SystemInstruction (replying ''Hello'') None) =
     Inr \<lparr>success = False, message = JStr instruction_not_followed,
          data = Some (JObj [(''model'', JStr ''gemini-2.5-flash''),
                             (''instruction'', JStr systemInstruction_instruction),
                             (''prompt'', JStr systemInstruction_prompt),
                             (''output'', JStr ''Hello'')])\<rparr>"
proof -
  have "snd (runGeminiTests SystemInstruction (replying ''Hello'') None) =
          snd (probe_try SystemInstruction (replying ''Hello'') None)"
    using hello_run by (simp add: runGeminiTests_try_catch try_catch_def)
  then show ?thesis
    using failure_carries_data_only_on_validation
            [of CountTokens count_rejected None
                "\<lparr>success = False, message = JStr ''quota exceeded'', data = None\<rparr>"]
          failure_carries_data_only_on_validation
            [of SystemInstruction "replying ''Hello''" None
                "\<lparr>success = False, message = JStr instruction_not_followed,
                  data = Some (JObj [(''model'', JStr ''gemini-2.5-flash''),
                             (''instruction'', JStr systemInstruction_instruction),
                             (''prompt'', JStr systemInstruction_prompt),
                             (''output'', JStr ''Hello'')])\<rparr>"]
          count_rejected_run hello_run
    by simp
qed

subsection \<open>The model of the outbound request\<close>

lemma model_of_request:
  "get_prop (connect_request m) ''model'' = Inr (JStr m)"
  "get_prop (generateText_request m) ''model'' = Inr (JStr m)"
  "get_prop (streamText_request m) ''model'' = Inr (JStr m)"
  "get_prop (countTokens_request m) ''model'' = Inr (JStr m)"
  "get_prop (vision_request m) ''model'' = Inr (JStr m)"
  "get_prop (systemInstruction_request m) ''model'' = Inr (JStr m)"
  "get_prop embedding_request ''model'' = Inr (JStr embedding_model)"
  by (simp_all add: connect_request_def generateText_request_def streamText_request_def
      countTokens_request_def vision_request_def systemInstruction_request_def embedding_request_def)

lemma probe_try_requests:
  assumes "getAIClient w = Inr ai"
  shows "outbound_models (fst (probe_try p w arg)) =
           [Inr (JStr (if p = Embedding then embedding_model else model_or_default arg))]"
  using assms
  by (cases p)
     (auto simp add: connect_try_def generateText_try_def streamText_try_def countTokens_try_def
        vision_try_def systemInstruction_try_def embedding_try_def Let_def model_of_request
        split: sum.split)

lemma fst_try_catch: "fst (try_catch body handler) = fst body"
  by (cases body) (simp add: try_catch_def split: sum.split)

text \<open>
  C9, as the code has it. With a client at hand, each of the six probes connect,
  generateText, streamText, countTokens, vision and systemInstruction sends one request
  whose model is the argument, or \<^verbatim>\<open>gemini-2.5-flash\<close> when the argument is omitted;
  the embedding probe sends one request whose model is \<^verbatim>\<open>text-embedding-004\<close>.
\<close>

theorem model_override_used:
  assumes "getAIClient w = Inr ai"
  shows "outbound_models (fst (runGeminiTests p w arg)) =
           [Inr (JStr (if p = Embedding then ''text-embedding-004''
                       else (case arg of None \<Rightarrow> ''gemini-2.5-flash'' | Some modelId \<Rightarrow> modelId)))]"
  using probe_try_requests[OF assms, of p arg]
  by (simp add: runGeminiTests_try_catch fst_try_catch embedding_model_def model_or_default_def
      default_model_def split: option.split)

theorem model_override_used_witness:
  "outbound_models (fst (runGeminiTests Vision (world_with quiet_client) (Some ''gemini-2.5-pro'')))
     = [Inr (JStr ''gemini-2.5-pro'')]
   \<and> outbound_models (fst (runGeminiTests Vision (world_with quiet_client) None))
     = [Inr (JStr ''gemini-2.5-flash'')]"
  using model_override_used [of "world_with quiet_client" quiet_client Vision "Some ''gemini-2.5-pro''"]
        model_override_used [of "world_with quiet_client" quiet_client Vision None]
  by (simp add: getAIClient_world_with)

text \<open>
  C9 as stated fails for the embedding probe: it declares no model parameter, and a
  model identifier passed to it is not the one of its request.
\<close>

theorem embedding_ignores_model_argument:
  "outbound_models (fst (runGeminiTests Embedding (world_with quiet_client) (Some ''gemini-2.5-pro'')))
     = [Inr (JStr ''text-embedding-004'')]
   \<and> outbound_models (fst (runGeminiTests Embedding (world_with quiet_client) (Some ''gemini-2.5-pro'')))
     \<noteq> [Inr (JStr ''gemini-2.5-pro'')]"
  by (simp add: embedding_def embedding_try_def try_catch_def getAIClient_world_with Let_def
      quiet_client_def js_and_def model_of_request embedding_model_def)

subsection \<open>The message of a failure record\<close>

text \<open>
  C8 at a failing input. A call that rejects with a value without a \<^verbatim>\<open>message\<close>
  property, here the string \<^verbatim>\<open>quota exceeded\<close>, makes the generateText probe return
  \<^verbatim>\<open>success: false\<close> with \<^verbatim>\<open>message: undefined\<close>, where the connect probe puts its
  fallback text.
\<close>

theorem generateText_failure_message_undefined:
  "snd (runGeminiTests GenerateText (rejecting_with (JStr ''quota exceeded'')) None) =
     Inr \<lparr>success = False, message = JUndefined, data = None\<rparr>
   \<and> snd (runGeminiTests Connect (rejecting_with (JStr ''quota exceeded'')) None) =
     Inr \<lparr>success = False, message = JStr (''Error de conexi'' @ [o_acute] @ ''n''), data = None\<rparr>"
  by (simp add: rejecting_with_def getAIClient_world_with quiet_client_def
      generateText_def generateText_try_def generateText_catch_def
      connect_def connect_try_def connect_catch_def js_or_def try_catch_def Let_def)

end
